theory Spec2Isabelle
  imports Complex_Main "HOL-Library.Option_ord"
begin

section \<open>The shaker monitoring dashboard (app.py)\<close>

text \<open>
  The program is one script. It reads a table, parses the two text columns
  \<^verbatim>\<open>YYYY/MM/DD\<close> and \<^verbatim>\<open>HH:MM:SS\<close> into a \<^verbatim>\<open>Timestamp\<close> column, sorts on it, attaches
  a \<^verbatim>\<open>Date\<close> column, derives the utilization column when it is not supplied, reduces
  three columns to whole-run figures, groups by day, and picks one advisory message.

  Numbers: the script computes in binary floating point; here a number is a \<^typ>\<open>real\<close>
  and a blank cell or a NaN result is \<open>None\<close>. Rounding is therefore not modelled.
  The table holds the two text columns and numeric columns only, which is the input the
  script is written for.
\<close>

subsection \<open>Data model\<close>

text \<open>A timestamp counts nanoseconds since the epoch; a date counts days since the epoch.\<close>

type_synonym timestamp = int
type_synonym date = int

definition ns_per_day :: int where
  "ns_per_day = 86400 * 1000000000"

definition date_of :: "timestamp \<Rightarrow> date" where
  "date_of t = t div ns_per_day"

text \<open>
  One line of the table. \<open>cells\<close> holds the numeric cells by column name, a blank cell
  being \<open>None\<close>. \<open>Timestamp\<close> and \<open>Date\<close> are \<open>None\<close> on every row until the script assigns
  these columns.
\<close>

record row =
  ymd :: string
  hms :: string
  cells :: "string \<rightharpoonup> real"
  Timestamp :: "timestamp option"
  Date :: "date option"

text \<open>The data frame \<^verbatim>\<open>df\<close>: the names of its columns, in order, and its rows.\<close>

record frame =
  columns :: "string list"
  rows :: "row list"

abbreviation COL_YMD :: string where "COL_YMD \<equiv> ''YYYY/MM/DD''"
abbreviation COL_HMS :: string where "COL_HMS \<equiv> ''HH:MM:SS''"
abbreviation COL_TS :: string where "COL_TS \<equiv> ''Timestamp''"
abbreviation COL_DATE :: string where "COL_DATE \<equiv> ''Date''"
abbreviation COL_UTIL :: string where "COL_UTIL \<equiv> ''Screen Utilization (%)''"
abbreviation COL_WOB :: string where "COL_WOB \<equiv> ''Weight on Bit (klbs)''"
abbreviation COL_FLOW :: string where "COL_FLOW \<equiv> ''MA_Flow_Rate (gal/min)''"
abbreviation COL_SOLIDS :: string where "COL_SOLIDS \<equiv> ''Solids Volume Rate (gpm)''"
abbreviation COL_SH1 :: string where "COL_SH1 \<equiv> ''SHAKER #1 (Units)''"
abbreviation COL_SH2 :: string where "COL_SH2 \<equiv> ''SHAKER #2 (Units)''"
abbreviation COL_SH3 :: string where "COL_SH3 \<equiv> ''SHAKER #3 (PERCENT)''"

text \<open>
  The exceptions the script meets: a date/time string that does not parse (with the
  position in the column and the string), a column that does not exist, and the chart
  library's refusal of a column name.
\<close>

datatype error = ParseError nat string | KeyError "string list" | ValueError string

text \<open>
  The four messages of the advisory block, in the order of the source: the overload
  insight, the high-throughput warning, the normal insight, and the note that not enough
  features are available.
\<close>

datatype tier = Overload | HighThroughput | Normal | Insufficient

subsection \<open>Mesh configuration\<close>

definition SCREEN_MESH_CAPACITY :: "(string \<times> int) list" where
  "SCREEN_MESH_CAPACITY =
     [(''API 100'', 250), (''API 140'', 200), (''API 170'', 160), (''API 200'', 120)]"

text \<open>The select box offers the keys of the table; the script then indexes the table.\<close>

definition mesh_options :: "string list" where
  "mesh_options = map fst SCREEN_MESH_CAPACITY"

definition mesh_capacity :: "string \<Rightarrow> error + int" where
  "mesh_capacity df_mesh_type =
     (case map_of SCREEN_MESH_CAPACITY df_mesh_type of
        None \<Rightarrow> Inl (KeyError [df_mesh_type])
      | Some c \<Rightarrow> Inr c)"

subsection \<open>Column access and assignment\<close>

definition column :: "frame \<Rightarrow> string \<Rightarrow> real option list" where
  "column df c = map (\<lambda>r. cells r c) (rows df)"

text \<open>
  \<^verbatim>\<open>df[c] = ...\<close> replaces the column when it exists and appends it otherwise; the new
  cell of each row is computed from that row.
\<close>

definition add_column :: "string \<Rightarrow> string list \<Rightarrow> string list" where
  "add_column c cols = (if c \<in> set cols then cols else cols @ [c])"

definition assign :: "string \<Rightarrow> (row \<Rightarrow> real option) \<Rightarrow> frame \<Rightarrow> frame" where
  "assign c f df =
     df\<lparr>columns := add_column c (columns df),
        rows := map (\<lambda>r. r\<lparr>cells := (cells r)(c := f r)\<rparr>) (rows df)\<rparr>"

text \<open>Elementwise arithmetic: a blank operand gives a blank result.\<close>

definition cell_mul :: "real option \<Rightarrow> real option \<Rightarrow> real option" where
  "cell_mul a b = (case (a, b) of (Some x, Some y) \<Rightarrow> Some (x * y) | _ \<Rightarrow> None)"

definition cell_div :: "real option \<Rightarrow> real \<Rightarrow> real option" where
  "cell_div a k = map_option (\<lambda>x. x / k) a"

definition cell_scale :: "real option \<Rightarrow> real \<Rightarrow> real option" where
  "cell_scale a k = map_option (\<lambda>x. x * k) a"

text \<open>A comparison with NaN is false.\<close>

definition gt :: "real option \<Rightarrow> real \<Rightarrow> bool" where
  "gt a k = (case a of None \<Rightarrow> False | Some x \<Rightarrow> x > k)"

subsection \<open>Advisory rules (lines 132 to 150)\<close>

definition advisory :: "string list \<Rightarrow> real option \<Rightarrow> real option \<Rightarrow> real option \<Rightarrow> tier" where
  "advisory cols util shaker_peak flow =
     (if {COL_UTIL, COL_SH3, COL_FLOW} \<subseteq> set cols then
        (if gt util 85 \<and> gt shaker_peak 95 then Overload
         else if gt util 75 \<and> gt flow 600 then HighThroughput
         else Normal)
      else Insufficient)"

subsection \<open>Timestamp parsing (lines 60 to 65)\<close>

text \<open>
  \<^verbatim>\<open>pd.to_datetime\<close> is the library's. What it accepts is a parameter \<open>parse\<close>, which
  gives the timestamp of one string or \<open>None\<close>; the column is converted row by row and
  the first string that does not parse raises, with its position.
\<close>

fun to_datetime :: "(string \<Rightarrow> timestamp option) \<Rightarrow> nat \<Rightarrow> string list \<Rightarrow> error + timestamp list" where
  "to_datetime parse i [] = Inr []"
| "to_datetime parse i (s # ss) =
     (case parse s of
        None \<Rightarrow> Inl (ParseError i s)
      | Some t \<Rightarrow>
          (case to_datetime parse (Suc i) ss of
             Inl e \<Rightarrow> Inl e
           | Inr ts \<Rightarrow> Inr (t # ts)))"

definition combined :: "row \<Rightarrow> string" where
  "combined r = ymd r @ '' '' @ hms r"

text \<open>
  The \<^verbatim>\<open>try\<close> block. Whatever is raised inside is caught and shown, and the script goes
  on with the frame as it was: the result is the message, if any, and the frame.
  \<^verbatim>\<open>sort_values\<close> is the library's too and is called with its default algorithm; it is
  the parameter \<open>sort_values\<close>, given the key of a row and the rows.
\<close>

definition parse_timestamps ::
  "(string \<Rightarrow> timestamp option) \<Rightarrow> ((row \<Rightarrow> timestamp option) \<Rightarrow> row list \<Rightarrow> row list)
     \<Rightarrow> frame \<Rightarrow> error option \<times> frame" where
  "parse_timestamps parse sort_values df =
     (if COL_YMD \<notin> set (columns df) then (Some (KeyError [COL_YMD]), df)
      else if COL_HMS \<notin> set (columns df) then (Some (KeyError [COL_HMS]), df)
      else
        (case to_datetime parse 0 (map combined (rows df)) of
           Inl e \<Rightarrow> (Some e, df)
         | Inr ts \<Rightarrow>
             (let df1 = df\<lparr>columns := add_column COL_TS (columns df),
                           rows := map2 (\<lambda>r t. r\<lparr>Timestamp := Some t\<rparr>) (rows df) ts\<rparr>;
                  df2 = df1\<lparr>rows := sort_values Timestamp (rows df1)\<rparr>;
                  df3 = df2\<lparr>columns := add_column COL_DATE (columns df2),
                            rows := map (\<lambda>r. r\<lparr>Date := map_option date_of (Timestamp r)\<rparr>) (rows df2)\<rparr>
              in (None, df3))))"

subsection \<open>Derivation (lines 67 to 69)\<close>

definition derive :: "int \<Rightarrow> frame \<Rightarrow> frame" where
  "derive capacity df =
     (if COL_UTIL \<notin> set (columns df) \<and> COL_WOB \<in> set (columns df) \<and> COL_FLOW \<in> set (columns df)
      then
        (let df1 = assign COL_SOLIDS
                     (\<lambda>r. cell_div (cell_mul (cells r COL_WOB) (cells r COL_FLOW)) 100) df;
             df2 = assign COL_UTIL
                     (\<lambda>r. cell_scale (cell_div (cells r COL_SOLIDS) (of_int capacity)) 100) df1
         in df2)
      else df)"

subsection \<open>Key metrics (lines 73 to 75)\<close>

text \<open>
  \<^verbatim>\<open>Series.mean()\<close> skips blank cells: it divides the sum of the cells, a blank one
  counting as zero, by the number of cells that are not blank, and is NaN when there is
  none. \<^verbatim>\<open>Series.max()\<close> skips blank cells likewise.
\<close>

definition count_cells :: "real option list \<Rightarrow> nat" where
  "count_cells xs = length (filter (\<lambda>c. c \<noteq> None) xs)"

definition sum_cells :: "real option list \<Rightarrow> real" where
  "sum_cells xs = sum_list (map (\<lambda>c. case c of None \<Rightarrow> 0 | Some x \<Rightarrow> x) xs)"

definition series_mean :: "real option list \<Rightarrow> real option" where
  "series_mean xs =
     (if count_cells xs = 0 then None else Some (sum_cells xs / real (count_cells xs)))"

fun series_max :: "real option list \<Rightarrow> real option" where
  "series_max [] = None"
| "series_max (None # cs) = series_max cs"
| "series_max (Some x # cs) =
     (case series_max cs of None \<Rightarrow> Some x | Some m \<Rightarrow> Some (max x m))"

definition avg_util :: "frame \<Rightarrow> real option" where
  "avg_util df =
     (if COL_UTIL \<in> set (columns df) then series_mean (column df COL_UTIL) else Some 0)"

definition avg_flow :: "frame \<Rightarrow> real option" where
  "avg_flow df =
     (if COL_FLOW \<in> set (columns df) then series_mean (column df COL_FLOW) else Some 0)"

definition shaker_max :: "frame \<Rightarrow> real option" where
  "shaker_max df =
     (if COL_SH3 \<in> set (columns df) then series_max (column df COL_SH3) else Some 0)"

text \<open>The values that are there, and their mean and maximum, as the specification words them.\<close>

fun present :: "'a option list \<Rightarrow> 'a list" where
  "present [] = []"
| "present (None # cs) = present cs"
| "present (Some x # cs) = x # present cs"

definition mean_of_present :: "real option list \<Rightarrow> real option" where
  "mean_of_present xs =
     (if present xs = [] then None
      else Some (sum_list (present xs) / real (length (present xs))))"

definition max_of_present :: "real option list \<Rightarrow> real option" where
  "max_of_present xs = (if present xs = [] then None else Some (Max (set (present xs))))"

subsection \<open>Daily summary (lines 99 to 105)\<close>

record daily_row =
  Day :: date
  Avg_Utilization :: "real option"
  Avg_Flow_Rate :: "real option"
  Avg_SHKR3 :: "real option"
  Max_SHKR3 :: "real option"

record flagged_row = daily_row +
  Exceeds_Threshold :: bool

text \<open>
  \<^verbatim>\<open>groupby\<close> makes one group for each value of the key column, drops the rows whose
  key is missing, and puts the groups in ascending order of the key.
\<close>

definition group_keys :: "row list \<Rightarrow> date list" where
  "group_keys rs = sort (remdups (present (map Date rs)))"

definition group_rows :: "date \<Rightarrow> row list \<Rightarrow> row list" where
  "group_rows d rs = filter (\<lambda>r. Date r = Some d) rs"

definition agg_group :: "row list \<Rightarrow> date \<Rightarrow> daily_row" where
  "agg_group rs d =
     (let g = group_rows d rs in
      \<lparr>Day = d,
       Avg_Utilization = series_mean (map (\<lambda>r. cells r COL_UTIL) g),
       Avg_Flow_Rate = series_mean (map (\<lambda>r. cells r COL_FLOW) g),
       Avg_SHKR3 = series_mean (map (\<lambda>r. cells r COL_SH3) g),
       Max_SHKR3 = series_max (map (\<lambda>r. cells r COL_SH3) g)\<rparr>)"

text \<open>Grouping by a column that does not exist, or aggregating one, raises KeyError.\<close>

definition groupby_agg :: "frame \<Rightarrow> error + daily_row list" where
  "groupby_agg df =
     (if COL_DATE \<notin> set (columns df) then Inl (KeyError [COL_DATE])
      else
        (let missing = filter (\<lambda>c. c \<notin> set (columns df)) [COL_UTIL, COL_FLOW, COL_SH3] in
         if missing \<noteq> [] then Inl (KeyError missing)
         else Inr (map (agg_group (rows df)) (group_keys (rows df)))))"

definition flag :: "int \<Rightarrow> daily_row \<Rightarrow> flagged_row" where
  "flag util_threshold s =
     \<lparr>Day = Day s, Avg_Utilization = Avg_Utilization s, Avg_Flow_Rate = Avg_Flow_Rate s,
      Avg_SHKR3 = Avg_SHKR3 s, Max_SHKR3 = Max_SHKR3 s,
      Exceeds_Threshold = gt (Avg_Utilization s) (of_int util_threshold)\<rparr>"

definition daily_avg :: "int \<Rightarrow> frame \<Rightarrow> error + flagged_row list" where
  "daily_avg util_threshold df =
     (case groupby_agg df of
        Inl e \<Rightarrow> Inl e
      | Inr ds \<Rightarrow> Inr (map (flag util_threshold) ds))"

subsection \<open>The charts before the summary (lines 85 to 96)\<close>

text \<open>
  Both charts read the \<^verbatim>\<open>Timestamp\<close> column outside any \<^verbatim>\<open>try\<close>: when the column does
  not exist, the first raises KeyError and the second ValueError, and the script stops
  there. The result is the exception that stops the script, if any.
\<close>

definition charts :: "frame \<Rightarrow> error option" where
  "charts df =
     (if {COL_SH1, COL_SH2, COL_SH3} \<subseteq> set (columns df) \<and> COL_TS \<notin> set (columns df)
      then Some (KeyError [COL_TS])
      else if COL_FLOW \<in> set (columns df) \<and> COL_TS \<notin> set (columns df)
      then Some (ValueError COL_TS)
      else None)"

subsection \<open>One run of the script\<close>

text \<open>
  What a run shows: the parsing message, the frame, the three key metrics, the daily
  summary (or the warning that replaces it), the advisory tier, and the exception that
  stopped the script, if one did. What the script did not reach is \<open>None\<close>.
\<close>

record report =
  parse_failure :: "error option"
  table :: "frame option"
  metrics :: "(real option \<times> real option \<times> real option) option"
  summary :: "flagged_row list option"
  summary_warning :: "error option"
  advice :: "tier option"
  uncaught :: "error option"

definition blank_report :: report where
  "blank_report =
     \<lparr>parse_failure = None, table = None, metrics = None, summary = None,
      summary_warning = None, advice = None, uncaught = None\<rparr>"

definition run ::
  "(string \<Rightarrow> timestamp option) \<Rightarrow> ((row \<Rightarrow> timestamp option) \<Rightarrow> row list \<Rightarrow> row list)
     \<Rightarrow> string \<Rightarrow> int \<Rightarrow> frame \<Rightarrow> report" where
  "run parse sort_values df_mesh_type util_threshold df0 =
     (case mesh_capacity df_mesh_type of
        Inl e \<Rightarrow> blank_report\<lparr>uncaught := Some e\<rparr>
      | Inr capacity \<Rightarrow>
          (let (failure, df1) = parse_timestamps parse sort_values df0;
               df = derive capacity df1;
               shown = blank_report\<lparr>parse_failure := failure, table := Some df,
                         metrics := Some (avg_util df, avg_flow df, shaker_max df)\<rparr>
           in case charts df of
                Some e \<Rightarrow> shown\<lparr>uncaught := Some e\<rparr>
              | None \<Rightarrow>
                  (let tabled =
                         (case daily_avg util_threshold df of
                            Inl e \<Rightarrow> shown\<lparr>summary_warning := Some e\<rparr>
                          | Inr ds \<Rightarrow> shown\<lparr>summary := Some ds\<rparr>)
                   in tabled\<lparr>advice :=
                        Some (advisory (columns df) (avg_util df) (shaker_max df) (avg_flow df))\<rparr>)))"

subsection \<open>Example inputs\<close>

text \<open>
  A parser that knows two strings, and small tables, for the concrete runs below.
  1704067200000000000 is 2024-01-01 00:00:00 and day 19723.
\<close>

abbreviation example_parse :: "string \<Rightarrow> timestamp option" where
  "example_parse \<equiv>
     (\<lambda>s. if s = ''2024/01/01 00:00:00'' then Some 1704067200000000000
          else if s = ''2024/01/02 06:30:00'' then Some 1704177000000000000
          else None)"

abbreviation mk_row :: "string \<Rightarrow> string \<Rightarrow> (string \<rightharpoonup> real) \<Rightarrow> row" where
  "mk_row d t cs \<equiv> \<lparr>ymd = d, hms = t, cells = cs, Timestamp = None, Date = None\<rparr>"


abbreviation derivable_table :: frame where
  "derivable_table \<equiv>
     \<lparr>columns = [COL_YMD, COL_HMS, COL_WOB, COL_FLOW],
      rows = [mk_row ''2024/01/01'' ''00:00:00'' [COL_WOB \<mapsto> 50, COL_FLOW \<mapsto> 400]]\<rparr>"

abbreviation supplied_table :: frame where
  "supplied_table \<equiv>
     \<lparr>columns = [COL_YMD, COL_HMS, COL_WOB, COL_FLOW, COL_UTIL],
      rows = [mk_row ''2024/01/01'' ''00:00:00''
                [COL_WOB \<mapsto> 50, COL_FLOW \<mapsto> 400, COL_UTIL \<mapsto> 42]]\<rparr>"

abbreviation no_flow_table :: frame where
  "no_flow_table \<equiv>
     \<lparr>columns = [COL_YMD, COL_HMS, COL_UTIL, COL_SH3],
      rows = [mk_row ''2024/01/01'' ''00:00:00'' [COL_UTIL \<mapsto> 90, COL_SH3 \<mapsto> 96]]\<rparr>"

abbreviation no_shaker_table :: frame where
  "no_shaker_table \<equiv>
     \<lparr>columns = [COL_YMD, COL_HMS, COL_UTIL, COL_FLOW],
      rows = [mk_row ''2024/01/01'' ''00:00:00'' [COL_UTIL \<mapsto> 50, COL_FLOW \<mapsto> 100]]\<rparr>"

abbreviation two_day_table :: frame where
  "two_day_table \<equiv>
     \<lparr>columns = [COL_YMD, COL_HMS, COL_UTIL, COL_FLOW, COL_SH3],
      rows = [mk_row ''2024/01/02'' ''06:30:00''
                [COL_UTIL \<mapsto> 95, COL_FLOW \<mapsto> 500, COL_SH3 \<mapsto> 40],
              mk_row ''2024/01/01'' ''00:00:00''
                [COL_UTIL \<mapsto> 70, COL_FLOW \<mapsto> 500, COL_SH3 \<mapsto> 40],
              mk_row ''2024/01/01'' ''00:00:00''
                [COL_UTIL \<mapsto> 90, COL_FLOW \<mapsto> 700, COL_SH3 \<mapsto> 60]]\<rparr>"

text \<open>The frame the summary and the advisory see for \<open>two_day_table\<close>.\<close>

abbreviation two_day_frame :: frame where
  "two_day_frame \<equiv> derive 200 (snd (parse_timestamps example_parse sort_key two_day_table))"

section \<open>Properties\<close>

subsection \<open>Columns\<close>

lemma add_column_mem: "c \<in> set (add_column c cols)"
  by (simp add: add_column_def)

lemma set_add_column: "set (add_column c cols) = insert c (set cols)"
  by (auto simp: add_column_def)

lemma columns_assign: "columns (assign c f df) = add_column c (columns df)"
  by (simp add: assign_def)

lemma columns_derive_flow:
  "COL_FLOW \<in> set (columns (derive capacity df)) \<longleftrightarrow> COL_FLOW \<in> set (columns df)"
  by (auto simp: derive_def Let_def columns_assign set_add_column)


lemma columns_parse_timestamps:
  "c \<noteq> COL_TS \<Longrightarrow> c \<noteq> COL_DATE \<Longrightarrow>
     c \<in> set (columns (snd (parse_timestamps parse sort_values df))) \<longleftrightarrow> c \<in> set (columns df)"
  by (simp add: parse_timestamps_def Let_def set_add_column split: sum.splits)

subsection \<open>Mesh configuration\<close>


text \<open>
  C10. Every capacity of the table is strictly positive, and every mesh type the select
  box offers resolves to such a capacity, so the divisor of the utilization formula is
  never zero.
\<close>

theorem mesh_capacity_positive:
  assumes "df_mesh_type \<in> set mesh_options"
  shows "list_all (\<lambda>(m, c). 0 < c) SCREEN_MESH_CAPACITY
         \<and> (\<exists>c. mesh_capacity df_mesh_type = Inr c \<and> 0 < c \<and> real_of_int c \<noteq> 0)"
  using assms by (auto simp: mesh_options_def mesh_capacity_def SCREEN_MESH_CAPACITY_def)

theorem mesh_capacity_positive_witness:
  "mesh_capacity ''API 200'' = Inr 120
   \<and> (\<exists>c. mesh_capacity ''API 200'' = Inr c \<and> 0 < c \<and> real_of_int c \<noteq> 0)"
  using mesh_capacity_positive [of "''API 200''"]
  by (simp add: mesh_options_def mesh_capacity_def SCREEN_MESH_CAPACITY_def)

subsection \<open>Derivation\<close>

text \<open>The formula on one row: weight on bit 50, flow 400 and capacity 200 give 200 and 100.\<close>

lemma derive_example:
  "column (derive 200 derivable_table) COL_SOLIDS = [Some 200]
   \<and> column (derive 200 derivable_table) COL_UTIL = [Some 100]
   \<and> columns (derive 200 derivable_table)
       = [COL_YMD, COL_HMS, COL_WOB, COL_FLOW, COL_SOLIDS, COL_UTIL]"
  by (simp add: derive_def assign_def add_column_def column_def cell_mul_def cell_div_def
      cell_scale_def Let_def)

lemma derive_has_util:
  "COL_UTIL \<notin> set (columns df) \<Longrightarrow> COL_WOB \<in> set (columns df) \<Longrightarrow> COL_FLOW \<in> set (columns df)
   \<Longrightarrow> COL_UTIL \<in> set (columns (derive capacity df))"
  by (simp add: derive_def Let_def columns_assign add_column_mem)

lemma derive_skip: "COL_UTIL \<in> set (columns df) \<Longrightarrow> derive capacity df = df"
  by (simp add: derive_def)

lemma derive_twice: "derive capacity (derive capacity df) = derive capacity df"
proof (cases "COL_UTIL \<notin> set (columns df) \<and> COL_WOB \<in> set (columns df) \<and> COL_FLOW \<in> set (columns df)")
  case True
  then have "COL_UTIL \<in> set (columns (derive capacity df))"
    by (simp add: derive_has_util)
  then show ?thesis by (rule derive_skip)
next
  case False
  then have "derive capacity df = df" by (auto simp: derive_def)
  then show ?thesis by simp
qed

text \<open>
  C3. When the table already has the utilization column, the derivation step does
  nothing: the frame is returned as it is, so the supplied utilization values are
  unchanged and neither the columns nor the solids-rate cells change.
\<close>

theorem derive_keeps_supplied_utilization:
  assumes "COL_UTIL \<in> set (columns df)"
  shows "derive capacity df = df
         \<and> column (derive capacity df) COL_UTIL = column df COL_UTIL
         \<and> column (derive capacity df) COL_SOLIDS = column df COL_SOLIDS
         \<and> columns (derive capacity df) = columns df"
  using assms by (simp add: derive_def)

theorem derive_keeps_supplied_utilization_witness:
  "derive 200 supplied_table = supplied_table
   \<and> column (derive 200 supplied_table) COL_UTIL = [Some 42]
   \<and> COL_SOLIDS \<notin> set (columns (derive 200 supplied_table))"
  using derive_keeps_supplied_utilization [of supplied_table 200] by (simp add: column_def)

text \<open>
  C8. Deriving twice with the same capacity gives the same utilization values as
  deriving once; indeed it gives the same frame.
\<close>

theorem derive_idempotent:
  "column (derive capacity (derive capacity df)) COL_UTIL = column (derive capacity df) COL_UTIL
   \<and> derive capacity (derive capacity df) = derive capacity df"
  by (simp add: derive_twice)

subsection \<open>Key metrics\<close>

lemma count_cells_present: "count_cells xs = length (present xs)"
  by (induction xs rule: present.induct) (simp_all add: count_cells_def)

lemma sum_cells_present: "sum_cells xs = sum_list (present xs)"
  by (induction xs rule: present.induct) (simp_all add: sum_cells_def)

lemma series_mean_present: "series_mean xs = mean_of_present xs"
  by (simp add: series_mean_def mean_of_present_def count_cells_present sum_cells_present)

lemma series_max_present: "series_max xs = max_of_present xs"
proof (induction xs rule: present.induct)
  case 1
  show ?case by (simp add: max_of_present_def)
next
  case (2 cs)
  then show ?case by (simp add: max_of_present_def)
next
  case (3 x cs)
  then show ?case
    by (cases "present cs = []") (simp_all add: max_of_present_def)
qed

text \<open>
  C6, as the script has it. Each whole-run figure is the mean (utilization, flow) or the
  maximum (shaker 3) of the values that are there when the column exists, NaN when the
  column has no value; when the column does not exist the figure is 0.
\<close>

theorem key_metrics:
  "avg_util df = (if COL_UTIL \<in> set (columns df) then mean_of_present (column df COL_UTIL) else Some 0)
   \<and> avg_flow df = (if COL_FLOW \<in> set (columns df) then mean_of_present (column df COL_FLOW) else Some 0)
   \<and> shaker_max df = (if COL_SH3 \<in> set (columns df) then max_of_present (column df COL_SH3) else Some 0)"
  by (simp add: avg_util_def avg_flow_def shaker_max_def series_mean_present series_max_present)

text \<open>
  C6 as stated fails: on a table with no flow column the run shows an average flow
  of 0, between the two figures it did compute.
\<close>

theorem absent_column_reported_as_zero:
  "metrics (run example_parse sort_key ''API 140'' 80 no_flow_table)
     = Some (Some 90, Some 0, Some 96)"
  unfolding run_def Let_def blank_report_def
  by (simp add: mesh_capacity_def SCREEN_MESH_CAPACITY_def parse_timestamps_def
      combined_def derive_def charts_def daily_avg_def groupby_agg_def add_column_def
      avg_util_def avg_flow_def shaker_max_def column_def series_mean_def count_cells_def
      sum_cells_def split: sum.splits)

subsection \<open>Advisory rules\<close>

text \<open>
  C2. The rules are tried in order and the first match wins: when the three columns are
  available, the average utilization is above 85 and the shaker-3 peak is above 95, the
  tier is Overload, whatever the flow is, so also when the high-throughput rule would
  match.
\<close>

theorem advisory_overload_precedence:
  assumes "{COL_UTIL, COL_SH3, COL_FLOW} \<subseteq> set cols"
    and "85 < u" and "95 < s"
  shows "advisory cols (Some u) (Some s) flow = Overload"
  using assms by (simp add: advisory_def gt_def)

theorem advisory_overload_precedence_witness:
  "advisory [COL_UTIL, COL_SH3, COL_FLOW] (Some 90) (Some 96) (Some 650) = Overload
   \<and> gt (Some 90) 75 \<and> gt (Some 650) 600"
  using advisory_overload_precedence [of "[COL_UTIL, COL_SH3, COL_FLOW]" 90 96 "Some 650"]
  by (simp add: gt_def)

lemma run_advice_no_flow:
  assumes "COL_FLOW \<notin> set (columns df)"
  shows "advice (run parse sort_values m thr df) = None
         \<or> advice (run parse sort_values m thr df) = Some Insufficient"
proof (cases "mesh_capacity m")
  case (Inl e)
  then show ?thesis
    unfolding run_def blank_report_def by simp
next
  case (Inr c)
  obtain failure df1 where p: "parse_timestamps parse sort_values df = (failure, df1)"
    by (cases "parse_timestamps parse sort_values df")
  then have "df1 = snd (parse_timestamps parse sort_values df)" by simp
  with assms have "COL_FLOW \<notin> set (columns df1)"
    by (simp add: columns_parse_timestamps)
  then have "COL_FLOW \<notin> set (columns (derive c df1))"
    by (simp add: columns_derive_flow)
  then have ins: "advisory (columns (derive c df1)) u s f = Insufficient" for u s f
    by (simp add: advisory_def)
  show ?thesis
  proof (cases "charts (derive c df1)")
    case (Some e)
    then show ?thesis
      unfolding run_def Let_def blank_report_def by (simp add: Inr p)
  next
    case None
    then show ?thesis
      unfolding run_def Let_def blank_report_def
      by (cases "daily_avg thr (derive c df1)") (simp_all add: Inr p ins)
  qed
qed

text \<open>
  C5. When one of the three columns is not available the tier is Insufficient, whatever
  the three figures are. A table with no flow column stays without one through the
  derivation, so its tier is Insufficient; and a run on such a table shows no other tier
  (it shows none when a chart stopped the script before the advisory block).
\<close>

theorem advisory_insufficient:
  "(\<not> {COL_UTIL, COL_SH3, COL_FLOW} \<subseteq> set cols \<longrightarrow>
      advisory cols util shaker_peak flow = Insufficient)
   \<and> (COL_FLOW \<notin> set (columns df) \<longrightarrow>
        advisory (columns (derive capacity df)) util shaker_peak flow = Insufficient)
   \<and> (COL_FLOW \<notin> set (columns df) \<longrightarrow>
        advice (run parse sort_values m thr df) = None
        \<or> advice (run parse sort_values m thr df) = Some Insufficient)"
  by (simp add: advisory_def columns_derive_flow run_advice_no_flow)

theorem advisory_insufficient_witness:
  "advisory [COL_UTIL, COL_SH3] (Some 90) (Some 96) (Some 650) = Insufficient
   \<and> advisory (columns (derive 200 no_flow_table)) (Some 90) (Some 96) (Some 650) = Insufficient
   \<and> advice (run example_parse sort_key ''API 140'' 80 no_flow_table) = Some Insufficient"
proof -
  have a: "\<not> {COL_UTIL, COL_SH3, COL_FLOW} \<subseteq> set [COL_UTIL, COL_SH3]" by simp
  have b: "COL_FLOW \<notin> set (columns no_flow_table)" by simp
  have c: "advice (run example_parse sort_key ''API 140'' 80 no_flow_table) \<noteq> None"
    unfolding run_def Let_def blank_report_def
    by (simp add: mesh_capacity_def SCREEN_MESH_CAPACITY_def parse_timestamps_def
        combined_def derive_def charts_def add_column_def split: sum.splits)
  from advisory_insufficient
    [of "[COL_UTIL, COL_SH3]" "Some 90" "Some 96" "Some 650" no_flow_table 200
        example_parse sort_key "''API 140''" 80]
    a b c
  show ?thesis by simp
qed

subsection \<open>Timestamp parsing\<close>








subsection \<open>Daily summary\<close>

lemma set_present: "set (present xs) = {x. Some x \<in> set xs}"
  by (induction xs rule: present.induct) auto

lemma set_group_keys: "set (group_keys rs) = {d. \<exists>r\<in>set rs. Date r = Some d}"
  by (force simp: group_keys_def set_present image_iff)

lemma distinct_group_keys: "distinct (group_keys rs)"
  by (simp add: group_keys_def)

lemma sorted_group_keys: "sorted (group_keys rs)"
  by (simp add: group_keys_def)

lemma Day_agg_group: "Day (agg_group rs d) = d"
  by (simp add: agg_group_def Let_def)

lemma Day_flag: "Day (flag thr s) = Day s"
  by (simp add: flag_def)

lemma groupby_agg_ok:
  assumes "{COL_DATE, COL_UTIL, COL_FLOW, COL_SH3} \<subseteq> set (columns df)"
  shows "groupby_agg df = Inr (map (agg_group (rows df)) (group_keys (rows df)))"
  using assms by (simp add: groupby_agg_def)

lemma daily_avg_ok:
  assumes "{COL_DATE, COL_UTIL, COL_FLOW, COL_SH3} \<subseteq> set (columns df)"
  shows "daily_avg thr df = Inr (map (flag thr \<circ> agg_group (rows df)) (group_keys (rows df)))"
  by (simp add: daily_avg_def groupby_agg_ok [OF assms])

lemma Day_daily: "map Day (map (flag thr \<circ> agg_group rs) ks) = ks"
  by (induction ks) (simp_all add: Day_flag Day_agg_group)

lemma once_in_distinct:
  assumes "distinct xs" "x \<in> set xs"
  shows "length (filter (\<lambda>y. y = x) xs) = 1"
  using assms by (induction xs) (auto simp: filter_empty_conv)

lemma filter_Day:
  "length (filter (\<lambda>s. Day s = d) ds) = length (filter (\<lambda>y. y = d) (map Day ds))"
  by (induction ds) simp_all

lemma two_day_columns:
  "columns two_day_frame = [COL_YMD, COL_HMS, COL_UTIL, COL_FLOW, COL_SH3, COL_TS, COL_DATE]"
  by (simp add: parse_timestamps_def combined_def derive_def add_column_def Let_def)

lemma two_day_summary:
  "daily_avg 80 two_day_frame =
     Inr [\<lparr>Day = 19723, Avg_Utilization = Some 80, Avg_Flow_Rate = Some 600,
           Avg_SHKR3 = Some 50, Max_SHKR3 = Some 60, Exceeds_Threshold = False\<rparr>,
          \<lparr>Day = 19724, Avg_Utilization = Some 95, Avg_Flow_Rate = Some 500,
           Avg_SHKR3 = Some 40, Max_SHKR3 = Some 40, Exceeds_Threshold = True\<rparr>]"
  by (simp add: parse_timestamps_def combined_def derive_def add_column_def Let_def
      date_of_def ns_per_day_def daily_avg_def groupby_agg_def group_keys_def group_rows_def
      agg_group_def flag_def gt_def series_mean_def count_cells_def sum_cells_def)

text \<open>
  C9, as the script has it. When the frame has the Date column and the three columns
  the summary aggregates, the summary has one row for each distinct date of the rows:
  the days of the summary are strictly ascending, they are exactly the dates of the rows,
  their number is the number of distinct dates, and the date of every row is the day of
  exactly one summary row.
\<close>

theorem daily_summary_grouping:
  assumes "{COL_DATE, COL_UTIL, COL_FLOW, COL_SH3} \<subseteq> set (columns df)"
  shows "\<exists>ds. daily_avg util_threshold df = Inr ds
           \<and> sorted_wrt (<) (map Day ds)
           \<and> set (map Day ds) = {d. \<exists>r\<in>set (rows df). Date r = Some d}
           \<and> length ds = card {d. \<exists>r\<in>set (rows df). Date r = Some d}
           \<and> (\<forall>r\<in>set (rows df). \<forall>d. Date r = Some d \<longrightarrow>
                 length (filter (\<lambda>s. Day s = d) ds) = 1)"
proof -
  let ?ks = "group_keys (rows df)"
  let ?ds = "map (flag util_threshold \<circ> agg_group (rows df)) ?ks"
  have days: "map Day ?ds = ?ks" by (rule Day_daily)
  have a: "daily_avg util_threshold df = Inr ?ds" by (rule daily_avg_ok [OF assms])
  have b: "sorted_wrt (<) (map Day ?ds)"
    unfolding days by (simp add: strict_sorted_iff sorted_group_keys distinct_group_keys)
  have c: "set (map Day ?ds) = {d. \<exists>r\<in>set (rows df). Date r = Some d}"
    unfolding days by (rule set_group_keys)
  have "length ?ds = length ?ks" by simp
  also have "\<dots> = card (set ?ks)"
    by (simp add: distinct_card distinct_group_keys)
  finally have d: "length ?ds = card {d. \<exists>r\<in>set (rows df). Date r = Some d}"
    by (simp only: set_group_keys)
  have e: "\<forall>r\<in>set (rows df). \<forall>d. Date r = Some d \<longrightarrow>
                 length (filter (\<lambda>s. Day s = d) ?ds) = 1"
  proof (intro ballI allI impI)
    fix r d assume "r \<in> set (rows df)" "Date r = Some d"
    then have "d \<in> set ?ks" by (auto simp: set_group_keys)
    then have "length (filter (\<lambda>y. y = d) ?ks) = 1"
      by (rule once_in_distinct [OF distinct_group_keys])
    then show "length (filter (\<lambda>s. Day s = d) ?ds) = 1"
      by (simp only: filter_Day days)
  qed
  from a b c d e show ?thesis
    by (intro exI [of _ ?ds] conjI)
qed

theorem daily_summary_grouping_witness:
  "\<exists>ds. daily_avg 80 two_day_frame = Inr ds \<and> sorted_wrt (<) (map Day ds)
      \<and> length ds = card {d. \<exists>r\<in>set (rows two_day_frame). Date r = Some d}
      \<and> map Day ds = [19723, 19724]"
proof -
  have cols: "{COL_DATE, COL_UTIL, COL_FLOW, COL_SH3} \<subseteq> set (columns two_day_frame)"
    unfolding two_day_columns by simp
  from daily_summary_grouping [OF cols, of 80] obtain ds
    where ds: "daily_avg 80 two_day_frame = Inr ds" "sorted_wrt (<) (map Day ds)"
      "length ds = card {d. \<exists>r\<in>set (rows two_day_frame). Date r = Some d}"
    by (elim exE conjE)
  from ds(1) [unfolded two_day_summary] have "map Day ds = [19723, 19724]"
    by auto
  with ds show ?thesis by (intro exI [of _ ds] conjI)
qed

text \<open>
  C9 as stated fails: on a table with no shaker-3 column the rows get their date, and
  the run shows the missing-column warning and no summary row at all.
\<close>

theorem summary_needs_all_columns:
  "summary (run example_parse sort_key ''API 140'' 80 no_shaker_table) = None
   \<and> summary_warning (run example_parse sort_key ''API 140'' 80 no_shaker_table)
       = Some (KeyError [COL_SH3])
   \<and> map_option (\<lambda>df. map Date (rows df))
        (table (run example_parse sort_key ''API 140'' 80 no_shaker_table)) = Some [Some 19723]"
  unfolding run_def Let_def blank_report_def
  by (simp add: mesh_capacity_def SCREEN_MESH_CAPACITY_def parse_timestamps_def
      combined_def derive_def charts_def daily_avg_def groupby_agg_def add_column_def
      date_of_def ns_per_day_def)

lemma flag_exceeds:
  "Exceeds_Threshold (flag thr s)
     = (\<exists>a. Avg_Utilization (flag thr s) = Some a \<and> real_of_int thr < a)"
  by (cases "Avg_Utilization s") (simp_all add: flag_def gt_def)

text \<open>
  C4. In every row of the daily summary the flag says that the average utilization of
  the day is a number strictly above the threshold; a day whose average equals the
  threshold is not flagged.
\<close>

theorem exceeds_threshold_strict:
  assumes "daily_avg util_threshold df = Inr ds" and "s \<in> set ds"
  shows "Exceeds_Threshold s = (\<exists>a. Avg_Utilization s = Some a \<and> real_of_int util_threshold < a)
         \<and> (Avg_Utilization s = Some (real_of_int util_threshold) \<longrightarrow> \<not> Exceeds_Threshold s)"
proof -
  from assms obtain t where "s = flag util_threshold t"
    by (auto simp: daily_avg_def split: sum.splits)
  then show ?thesis by (simp add: flag_exceeds)
qed

theorem exceeds_threshold_strict_witness:
  "\<exists>ds s. daily_avg 80 two_day_frame = Inr ds \<and> s \<in> set ds
      \<and> Avg_Utilization s = Some 80 \<and> \<not> Exceeds_Threshold s"
proof -
  let ?s = "\<lparr>Day = 19723, Avg_Utilization = Some 80, Avg_Flow_Rate = Some 600,
           Avg_SHKR3 = Some 50, Max_SHKR3 = Some 60, Exceeds_Threshold = False\<rparr>"
  let ?t = "\<lparr>Day = 19724, Avg_Utilization = Some 95, Avg_Flow_Rate = Some 500,
           Avg_SHKR3 = Some 40, Max_SHKR3 = Some 40, Exceeds_Threshold = True\<rparr>"
  have mem: "?s \<in> set [?s, ?t]" by simp
  from exceeds_threshold_strict [OF two_day_summary mem]
  have "\<not> Exceeds_Threshold ?s" by simp
  with two_day_summary mem show ?thesis
    by (intro exI [of _ "[?s, ?t]"] exI [of _ ?s]) simp
qed

end
